theory Spec2Isabelle
  imports Complex_Main "HOL-Library.Word"
begin

unbundle bit_operations_syntax

section \<open>Decision Coach: the session state machine of \<open>src/pages/Index.tsx\<close>\<close>

text \<open>
  The component \<open>DecisionCoach\<close> keeps its whole session in React state hooks and changes
  it from event handlers, two effects and two single-shot \<open>setTimeout\<close> callbacks.
  The embedding makes that state a record, every handler a function from state to state,
  and every scheduled callback an entry of a queue held in the state.

  JavaScript strings are modelled as \<open>string\<close> (a list of bytes): a character outside
  ASCII stands as its UTF-8 bytes. The numbers held in the state (confidence, seconds)
  and the clock in milliseconds are whole numbers and are modelled as \<open>int\<close>; the draws
  of \<open>Math.random()\<close> are modelled as \<open>rat\<close>.
\<close>

subsection \<open>Mock data\<close>

datatype Direction = UP | DOWN

record AIAnalysis =
  direction :: Direction
  confidence :: int
  signals :: "string list"
  coachNote :: string

record CoachResponse =
  feedback :: string
  patternInsight :: string
  nextSuggestion :: string

definition mockAIAnalysis :: AIAnalysis where
  "mockAIAnalysis =
     \<lparr> direction = UP,
       confidence = 78,
       signals =
         [''Order flow: bullish momentum detected'',
          ''RSI: neutral, no extreme readings'',
          ''Sentiment: slightly positive across channels'',
          ''Volume profile: above average accumulation''],
       coachNote =
         ''This is analysis to inform your thinking, not a recommendation to follow.'' \<rparr>"

text \<open>The em dash U+2014 of the feedback texts, as its three UTF-8 bytes.\<close>

definition emDash :: string where
  "emDash = [CHR 0xE2, CHR 0x80, CHR 0x94]"

definition agree_correct :: CoachResponse where
  "agree_correct =
     \<lparr> feedback = ''Your reasoning aligned with the analysis, and the outcome confirmed it. This is a good sign your pattern recognition is developing well. Stay curious about what signals felt most reliable to you.'',
       patternInsight = ''When you trust your read and it matches the data, you're building calibrated confidence.'',
       nextSuggestion = ''Next time, notice which specific signal gave you the most conviction.'' \<rparr>"

definition agree_incorrect :: CoachResponse where
  "agree_incorrect =
     \<lparr> feedback = ''You aligned with the analysis, but the outcome went the other way. This happens'' @ emDash @ ''markets are probabilistic, not deterministic. The goal isn't to be right every time, but to learn from each decision.'',
       patternInsight = ''Incorrect outcomes when following data are normal. What matters is your process was sound.'',
       nextSuggestion = ''Reflect on whether any signal felt uncertain. Trust that discomfort next time.'' \<rparr>"

definition disagree_correct :: CoachResponse where
  "disagree_correct =
     \<lparr> feedback = ''You went against the analysis and were right. This shows independent thinking and perhaps pattern recognition the model missed. That's valuable'' @ emDash @ ''but also rare. Consider what you saw that the data didn't capture.'',
       patternInsight = ''Contrarian calls that work out often come from noticing something others overlooked.'',
       nextSuggestion = ''Document what gave you conviction to disagree. This insight could be your edge.'' \<rparr>"

definition disagree_incorrect :: CoachResponse where
  "disagree_incorrect =
     \<lparr> feedback = ''You disagreed with the analysis, and the outcome didn't favor your call. That's okay'' @ emDash @ ''learning to calibrate when to trust your instincts versus the data is part of the training. Each decision teaches you something.'',
       patternInsight = ''Disagreeing with data isn't wrong, but it requires strong conviction backed by observation.'',
       nextSuggestion = ''Ask yourself: what made you doubt the analysis? Was it pattern or impulse?'' \<rparr>"

text \<open>The lookup table \<open>coachResponses\<close>: an object literal, so an association list by key.\<close>

definition coachResponses :: "(string \<times> CoachResponse) list" where
  "coachResponses =
     [(''agree_correct'', agree_correct),
      (''agree_incorrect'', agree_incorrect),
      (''disagree_correct'', disagree_correct),
      (''disagree_incorrect'', disagree_incorrect)]"

subsection \<open>Component state\<close>

datatype TxStatus = Idle | Pending | Confirmed

text \<open>
  A callback handed to \<open>setTimeout\<close>: the outcome reveal of \<open>handleLockIn\<close>, or the
  rest of \<open>handleCommitProof\<close> after its \<open>await\<close>, which has already chosen its branch
  from the value \<open>demoMode\<close> had at the click.
\<close>

datatype Callback = RevealOutcome | FinishCommit bool

record State =
  demoMode :: bool
  walletConnected :: bool
  walletAddress :: string
  userDirection :: "Direction option"
  userConfidence :: int
  isLocked :: bool
  timeRemaining :: int
  timerActive :: bool
  showTimeWarning :: bool
  outcome :: Direction
  showOutcome :: bool
  commitmentHash :: string
  txStatus :: TxStatus
  txHash :: string
  timeouts :: "(nat \<times> Callback) list"

text \<open>The initial values of the \<open>useState\<close> hooks; no callback is scheduled.\<close>

definition initialState :: State where
  "initialState =
     \<lparr> demoMode = True,
       walletConnected = False,
       walletAddress = [],
       userDirection = None,
       userConfidence = 65,
       isLocked = False,
       timeRemaining = 30,
       timerActive = True,
       showTimeWarning = False,
       outcome = UP,
       showOutcome = False,
       commitmentHash = [],
       txStatus = Idle,
       txHash = [],
       timeouts = [] \<rparr>"

subsection \<open>Handlers\<close>

text \<open>
  \<open>handleLockIn\<close>: returns at once without a direction; otherwise locks, stops the timer
  and schedules the outcome reveal 800 ms later.
\<close>

definition handleLockIn :: "State \<Rightarrow> State" where
  "handleLockIn s =
     (if userDirection s = None then s
      else s\<lparr> isLocked := True,
              timerActive := False,
              timeouts := timeouts s @ [(800, RevealOutcome)] \<rparr>)"

text \<open>
  The inline handlers of the direction buttons (\<open>!isLocked && setUserDirection(d)\<close>) and
  of the confidence slider (\<open>!isLocked && setUserConfidence(Number(e.target.value))\<close>).
\<close>

definition chooseDirection :: "Direction \<Rightarrow> State \<Rightarrow> State" where
  "chooseDirection d s = (if \<not> isLocked s then s\<lparr> userDirection := Some d \<rparr> else s)"

text \<open>
  The slider is declared \<open><input type="range" min="0" max="100" ...>\<close>, with the
  default step of 1: the browser keeps the value of such an element whole and inside its
  range, a value below the minimum becoming the minimum and one above the maximum the
  maximum. \<open>sliderValue v\<close> is the value the element holds when \<open>v\<close> is put into it.
\<close>

definition sliderValue :: "int \<Rightarrow> int" where
  "sliderValue v = (if v < 0 then 0 else if 100 < v then 100 else v)"

definition onChangeConfidence :: "int \<Rightarrow> State \<Rightarrow> State" where
  "onChangeConfidence x s = (if \<not> isLocked s then s\<lparr> userConfidence := x \<rparr> else s)"

text \<open>Moving the slider to \<open>v\<close>: the handler receives the value the element holds.\<close>

definition setConfidence :: "int \<Rightarrow> State \<Rightarrow> State" where
  "setConfidence v s = onChangeConfidence (sliderValue v) s"

text \<open>
  \<open>handleCommitProof\<close> up to its \<open>await\<close>: returns at once without a commitment;
  otherwise sets the status to pending and waits 2000 ms on the branch chosen by
  \<open>demoMode\<close>.
\<close>

definition handleCommitProof :: "State \<Rightarrow> State" where
  "handleCommitProof s =
     (if commitmentHash s = [] then s
      else s\<lparr> txStatus := Pending,
              timeouts := timeouts s @ [(2000, FinishCommit (demoMode s))] \<rparr>)"

text \<open>The \<open>disabled\<close> attribute of the commit button, and a click on that button.\<close>

definition commitDisabled :: "State \<Rightarrow> bool" where
  "commitDisabled s \<longleftrightarrow>
     commitmentHash s = [] \<or> txStatus s = Pending \<or> txStatus s = Confirmed
       \<or> (\<not> demoMode s \<and> \<not> walletConnected s)"

definition clickCommit :: "State \<Rightarrow> State" where
  "clickCommit s = (if commitDisabled s then s else handleCommitProof s)"

definition handleRandomizeOutcome :: "State \<Rightarrow> State" where
  "handleRandomizeOutcome s = s\<lparr> outcome := (if outcome s = UP then DOWN else UP) \<rparr>"

definition resetDemo :: "State \<Rightarrow> State" where
  "resetDemo s =
     s\<lparr> userDirection := None,
        userConfidence := 65,
        isLocked := False,
        timeRemaining := 30,
        timerActive := True,
        showTimeWarning := False,
        showOutcome := False,
        commitmentHash := [],
        txStatus := Idle,
        txHash := [] \<rparr>"

subsection \<open>The countdown effect\<close>

text \<open>
  The timer effect runs after every render in which one of \<open>timeRemaining\<close>,
  \<open>timerActive\<close>, \<open>isLocked\<close>, \<open>userDirection\<close> changed. Its last branch starts the
  one-second interval, which the cleanup clears before the next run: the interval is
  alive exactly in the states of \<open>intervalRunning\<close>.
\<close>

definition timerEffect :: "State \<Rightarrow> State" where
  "timerEffect s =
     (if \<not> timerActive s \<or> isLocked s then s
      else if timeRemaining s \<le> 0 then
        (if userDirection s \<noteq> None then handleLockIn s
         else s\<lparr> showTimeWarning := True, timerActive := False \<rparr>)
      else s)"

definition intervalRunning :: "State \<Rightarrow> bool" where
  "intervalRunning s \<longleftrightarrow> timerActive s \<and> \<not> isLocked s \<and> 0 < timeRemaining s"

text \<open>One firing of the interval: \<open>setTimeRemaining (t - 1)\<close>, then the effect again.\<close>

definition tick :: "State \<Rightarrow> State" where
  "tick s =
     (if intervalRunning s then timerEffect (s\<lparr> timeRemaining := timeRemaining s - 1 \<rparr>)
      else s)"

subsection \<open>The feedback resolver\<close>

definition feedbackKey :: "bool \<Rightarrow> bool \<Rightarrow> string" where
  "feedbackKey agreed correct =
     (if agreed then ''agree'' else ''disagree'') @ ''_''
       @ (if correct then ''correct'' else ''incorrect'')"

definition getCoachFeedback :: "State \<Rightarrow> CoachResponse option" where
  "getCoachFeedback s =
     (if \<not> showOutcome s \<or> userDirection s = None then None
      else
        let agreed = (userDirection s = Some (direction mockAIAnalysis));
            correct = (userDirection s = Some (outcome s))
        in map_of coachResponses (feedbackKey agreed correct))"

subsection \<open>Scheduled callbacks\<close>

text \<open>
  \<open>Number.prototype.toString(16)\<close> on a whole number that is not negative: its
  hexadecimal digits in lower case, without leading zeros.
\<close>

definition hexChar :: "nat \<Rightarrow> char" where
  "hexChar d = ''0123456789abcdef'' ! (d mod 16)"

fun toString16 :: "nat \<Rightarrow> string" where
  "toString16 n =
     (if n < 16 then [hexChar n] else toString16 (n div 16) @ [hexChar (n mod 16)])"

declare toString16.simps [simp del]

text \<open>
  The fake transaction hash: \<open>'0x'\<close> and the join of 64 strings, the \<open>i\<close>-th being
  \<open>Math.floor(Math.random() * 16).toString(16)\<close>. The argument \<open>random\<close> gives the
  value of the \<open>i\<close>-th call of \<open>Math.random()\<close>; a double is a rational, and its product
  with 16 is exact. (\<open>nat\<close> is the floor itself as long as the draw is not negative.)
\<close>

definition fakeTxHash :: "(nat \<Rightarrow> rat) \<Rightarrow> string" where
  "fakeTxHash random =
     ''0x'' @ concat (map (\<lambda>i. toString16 (nat \<lfloor>random i * 16\<rfloor>)) [0..<64])"

text \<open>
  What a callback does when its timeout fires: the reveal sets \<open>showOutcome\<close>; the demo
  branch of \<open>handleCommitProof\<close> stores a fake hash and confirms; the live branch, whose
  awaited promise cannot reject, confirms. Nothing cancels a timeout, so a callback runs
  on whatever the state has become.
\<close>

fun runCallback :: "(nat \<Rightarrow> rat) \<Rightarrow> Callback \<Rightarrow> State \<Rightarrow> State" where
  "runCallback random RevealOutcome s = s\<lparr> showOutcome := True \<rparr>"
| "runCallback random (FinishCommit True) s =
     s\<lparr> txHash := fakeTxHash random, txStatus := Confirmed \<rparr>"
| "runCallback random (FinishCommit False) s = s\<lparr> txStatus := Confirmed \<rparr>"

definition fire :: "(nat \<Rightarrow> rat) \<Rightarrow> nat \<times> Callback \<Rightarrow> State \<Rightarrow> State" where
  "fire random t s = runCallback random (snd t) (s\<lparr> timeouts := remove1 t (timeouts s) \<rparr>)"

subsection \<open>The commitment\<close>

text \<open>
  \<open>keccak256\<close> and \<open>encodePacked\<close> come from the library \<open>viem\<close>. The hash function
  itself is a parameter \<open>K\<close> from bytes to a 256-bit digest; \<open>keccak256\<close> renders the
  digest as \<open>'0x'\<close> and 64 hexadecimal digits. \<open>encodePacked\<close> concatenates the
  encodings of its values: a \<open>string\<close> is its UTF-8 bytes, a \<open>uint256\<close> is 32 bytes
  in big-endian order, and a number outside \<open>0 .. 2^256 - 1\<close> is refused with an
  exception.
\<close>

type_synonym byte = "8 word"

datatype AbiValue = AbiString string | AbiUint256 int

datatype EncodeError = IntegerOutOfRange int

definition toHex256 :: "256 word \<Rightarrow> string" where
  "toHex256 w = map (\<lambda>i. hexChar (unat (drop_bit (4 * (63 - i)) w AND 15))) [0..<64]"

definition keccak256 :: "(byte list \<Rightarrow> 256 word) \<Rightarrow> byte list \<Rightarrow> string" where
  "keccak256 K bs = ''0x'' @ toHex256 (K bs)"

definition stringToBytes :: "string \<Rightarrow> byte list" where
  "stringToBytes str = map (\<lambda>c. word_of_nat (of_char c)) str"

definition uint256ToBytes :: "int \<Rightarrow> byte list" where
  "uint256ToBytes n = map (\<lambda>i. word_of_int (n div 256 ^ (31 - i))) [0..<32]"

fun encodeValue :: "AbiValue \<Rightarrow> EncodeError + byte list" where
  "encodeValue (AbiString str) = Inr (stringToBytes str)"
| "encodeValue (AbiUint256 n) =
     (if n < 0 \<or> 2 ^ 256 \<le> n then Inl (IntegerOutOfRange n)
      else Inr (uint256ToBytes n))"

fun encodePacked :: "AbiValue list \<Rightarrow> EncodeError + byte list" where
  "encodePacked [] = Inr []"
| "encodePacked (v # vs) =
     (case encodeValue v of
        Inl e \<Rightarrow> Inl e
      | Inr b \<Rightarrow> (case encodePacked vs of Inl e \<Rightarrow> Inl e | Inr bs \<Rightarrow> Inr (b @ bs)))"

definition directionString :: "Direction \<Rightarrow> string" where
  "directionString d = (case d of UP \<Rightarrow> ''UP'' | DOWN \<Rightarrow> ''DOWN'')"

text \<open>
  The values handed to \<open>encodePacked\<close>; \<open>now\<close> is \<open>Date.now()\<close> in milliseconds.
  An empty wallet address is falsy and becomes \<open>'0x0'\<close>.
\<close>

definition commitmentAddress :: "State \<Rightarrow> string" where
  "commitmentAddress s =
     (if demoMode s then ''0xDemoUser''
      else if walletAddress s = [] then ''0x0'' else walletAddress s)"

definition userDirectionString :: "State \<Rightarrow> string" where
  "userDirectionString s =
     (case userDirection s of None \<Rightarrow> ''NONE'' | Some d \<Rightarrow> directionString d)"

definition commitmentInputs :: "State \<Rightarrow> int \<Rightarrow> AbiValue list" where
  "commitmentInputs s now =
     (let address = commitmentAddress s;
          timestamp = now div 1000
      in [AbiString address,
          AbiString (directionString (direction mockAIAnalysis)),
          AbiUint256 (confidence mockAIAnalysis),
          AbiString (userDirectionString s),
          AbiUint256 (userConfidence s),
          AbiString (directionString (outcome s)),
          AbiUint256 timestamp])"

text \<open>\<open>computeCommitment\<close>: the \<open>try\<close> returns the hash, the \<open>catch\<close> the zero digest.\<close>

definition computeCommitment :: "(byte list \<Rightarrow> 256 word) \<Rightarrow> State \<Rightarrow> int \<Rightarrow> string" where
  "computeCommitment K s now =
     (case encodePacked (commitmentInputs s now) of
        Inr packed \<Rightarrow> keccak256 K packed
      | Inl e \<Rightarrow> ''0x'' @ replicate 64 (CHR ''0''))"

text \<open>The effect that stores the commitment once the decision is locked and revealed.\<close>

definition commitmentEffect :: "(byte list \<Rightarrow> 256 word) \<Rightarrow> int \<Rightarrow> State \<Rightarrow> State" where
  "commitmentEffect K now s =
     (if isLocked s \<and> showOutcome s then s\<lparr> commitmentHash := computeCommitment K s now \<rparr>
      else s)"


text \<open>
  A small hash that reads every byte, for the closed examples below, which need some
  function in the place of \<open>K\<close>. It is not Keccak-256; the theorems hold for every \<open>K\<close>.
\<close>

definition sampleHash :: "byte list \<Rightarrow> 256 word" where
  "sampleHash bs = word_of_int (foldl (\<lambda>h b. h * 257 + uint b) 0 bs)"

text \<open>
  A session for the closed examples: \<open>UP\<close> chosen, locked in, the reveal fired, and the
  commitment effect run at 1700000000123 ms with \<open>sampleHash\<close>.
\<close>

definition revealedState :: State where
  "revealedState =
     initialState\<lparr> userDirection := Some UP, isLocked := True, timerActive := False,
       showOutcome := True,
       commitmentHash := ''0x0867ff2d5b5479eb83c0aac62aa756d7ae1b43149056b697a39b4c0bf542ddf3'' \<rparr>"

definition isHexDigit :: "char \<Rightarrow> bool" where
  "isHexDigit c \<longleftrightarrow> c \<in> set ''0123456789abcdef''"

text \<open>The shape of a digest: \<open>'0x'\<close> followed by exactly 64 hexadecimal digits.\<close>

definition isHex32 :: "string \<Rightarrow> bool" where
  "isHex32 h \<longleftrightarrow> length h = 66 \<and> take 2 h = ''0x'' \<and> list_all isHexDigit (drop 2 h)"

text \<open>
  An observer for runs of timeouts: how many of the firings in the list turn
  \<open>showOutcome\<close> from false to true, when they fire in this order from the state \<open>s\<close>.
\<close>

fun revealCount :: "(nat \<Rightarrow> rat) \<Rightarrow> (nat \<times> Callback) list \<Rightarrow> State \<Rightarrow> nat" where
  "revealCount random [] s = 0"
| "revealCount random (t # ts) s =
     (if \<not> showOutcome s \<and> showOutcome (fire random t s) then 1 else 0)
       + revealCount random ts (fire random t s)"

section \<open>Properties\<close>

subsection \<open>Feedback resolver\<close>

lemma payloads_distinct:
  "distinct [agree_correct, agree_incorrect, disagree_correct, disagree_incorrect]"
  by (simp add: agree_correct_def agree_incorrect_def disagree_correct_def disagree_incorrect_def)

lemma coachResponses_lookup:
  "map_of coachResponses (feedbackKey a c) =
     Some (if a then (if c then agree_correct else agree_incorrect)
           else (if c then disagree_correct else disagree_incorrect))"
  by (simp add: coachResponses_def feedbackKey_def)

text \<open>
  Claim C1. \<open>getCoachFeedback\<close> returns nothing while the outcome is hidden or no
  direction is chosen. Otherwise it returns the payload selected by the two equalities
  (user direction = reference direction, user direction = outcome); its value depends on
  the state only through \<open>showOutcome\<close>, \<open>userDirection\<close> and \<open>outcome\<close>, the reference
  direction being the constant \<open>UP\<close> of the mock analysis. The four payloads are pairwise
  distinct, and the three scenarios of the specification select \<open>agree_correct\<close>,
  \<open>disagree_correct\<close> and \<open>agree_incorrect\<close>.
\<close>

theorem getCoachFeedback_resolves:
  "(\<not> showOutcome s \<or> userDirection s = None \<longrightarrow> getCoachFeedback s = None)
   \<and> (showOutcome s \<and> userDirection s = Some d \<longrightarrow>
        getCoachFeedback s =
          Some (if d = direction mockAIAnalysis
                then (if d = outcome s then agree_correct else agree_incorrect)
                else (if d = outcome s then disagree_correct else disagree_incorrect)))
   \<and> (showOutcome s = showOutcome s' \<and> userDirection s = userDirection s'
         \<and> outcome s = outcome s' \<longrightarrow> getCoachFeedback s = getCoachFeedback s')
   \<and> distinct [agree_correct, agree_incorrect, disagree_correct, disagree_incorrect]
   \<and> direction mockAIAnalysis = UP
   \<and> (showOutcome s \<and> userDirection s = Some UP \<and> outcome s = UP \<longrightarrow>
        getCoachFeedback s = Some agree_correct)
   \<and> (showOutcome s \<and> userDirection s = Some DOWN \<and> outcome s = DOWN \<longrightarrow>
        getCoachFeedback s = Some disagree_correct)
   \<and> (showOutcome s \<and> userDirection s = Some UP \<and> outcome s = DOWN \<longrightarrow>
        getCoachFeedback s = Some agree_incorrect)"
proof -
  have ref: "direction mockAIAnalysis = UP"
    by (simp add: mockAIAnalysis_def)
  have unrevealed: "\<not> showOutcome s \<or> userDirection s = None \<Longrightarrow> getCoachFeedback s = None"
    by (auto simp add: getCoachFeedback_def)
  have revealed: "getCoachFeedback t =
          Some (if e = direction mockAIAnalysis
                then (if e = outcome t then agree_correct else agree_incorrect)
                else (if e = outcome t then disagree_correct else disagree_incorrect))"
    if "showOutcome t" "userDirection t = Some e" for t e
    using that by (simp add: getCoachFeedback_def Let_def coachResponses_lookup)
  have pure: "getCoachFeedback s = getCoachFeedback s'"
    if "showOutcome s = showOutcome s'" "userDirection s = userDirection s'" "outcome s = outcome s'"
    using that by (simp add: getCoachFeedback_def)
  show ?thesis
    using unrevealed revealed [of s] pure payloads_distinct ref by simp
qed

theorem getCoachFeedback_resolves_witness:
  "getCoachFeedback initialState = None
   \<and> getCoachFeedback (initialState\<lparr>userDirection := Some UP, showOutcome := True\<rparr>) = Some agree_correct
   \<and> getCoachFeedback (initialState\<lparr>userDirection := Some DOWN, outcome := DOWN, showOutcome := True\<rparr>) = Some disagree_correct
   \<and> getCoachFeedback (initialState\<lparr>userDirection := Some UP, outcome := DOWN, showOutcome := True\<rparr>) = Some agree_incorrect
   \<and> getCoachFeedback (initialState\<lparr>userDirection := Some DOWN, showOutcome := True\<rparr>) = Some disagree_incorrect
   \<and> getCoachFeedback (initialState\<lparr>userDirection := Some DOWN, showOutcome := True\<rparr>)
       = getCoachFeedback (initialState\<lparr>userDirection := Some DOWN, showOutcome := True, userConfidence := 3\<rparr>)"
proof -
  have hidden: "getCoachFeedback initialState = None"
    using getCoachFeedback_resolves [of initialState] by (simp add: initialState_def)
  have up_up: "getCoachFeedback (initialState\<lparr>userDirection := Some UP, showOutcome := True\<rparr>)
      = Some agree_correct"
    using getCoachFeedback_resolves [of "initialState\<lparr>userDirection := Some UP, showOutcome := True\<rparr>" UP]
    by (simp add: initialState_def)
  have down_down: "getCoachFeedback (initialState\<lparr>userDirection := Some DOWN, outcome := DOWN, showOutcome := True\<rparr>)
      = Some disagree_correct"
    using getCoachFeedback_resolves [of "initialState\<lparr>userDirection := Some DOWN, outcome := DOWN, showOutcome := True\<rparr>" DOWN]
    by simp
  have up_down: "getCoachFeedback (initialState\<lparr>userDirection := Some UP, outcome := DOWN, showOutcome := True\<rparr>)
      = Some agree_incorrect"
    using getCoachFeedback_resolves [of "initialState\<lparr>userDirection := Some UP, outcome := DOWN, showOutcome := True\<rparr>" UP]
    by simp
  have down_up: "getCoachFeedback (initialState\<lparr>userDirection := Some DOWN, showOutcome := True\<rparr>)
      = Some disagree_incorrect"
    using getCoachFeedback_resolves [of "initialState\<lparr>userDirection := Some DOWN, showOutcome := True\<rparr>" DOWN]
    by (simp add: initialState_def)
  have same: "getCoachFeedback (initialState\<lparr>userDirection := Some DOWN, showOutcome := True\<rparr>)
       = getCoachFeedback (initialState\<lparr>userDirection := Some DOWN, showOutcome := True, userConfidence := 3\<rparr>)"
    using getCoachFeedback_resolves [of "initialState\<lparr>userDirection := Some DOWN, showOutcome := True\<rparr>" DOWN
       "initialState\<lparr>userDirection := Some DOWN, showOutcome := True, userConfidence := 3\<rparr>",
       THEN conjunct2, THEN conjunct2, THEN conjunct1]
    by simp
  from hidden up_up down_down up_down down_up same show ?thesis by blast
qed

subsection \<open>Submission guard\<close>

text \<open>
  Claim C2. Submitting is a click on the commit button, which is disabled when the
  commitment is empty or the status is pending or confirmed. In every such state the
  click leaves the whole state unchanged, the status and the transaction identifier with
  it. The handler behind the button returns at once on an empty commitment. With a
  commitment, an idle status and a way to sign (demo mode or a connected wallet) the click
  does take effect: the status becomes pending.
\<close>

theorem clickCommit_noop_unless_ready:
  "(commitmentHash s = [] \<or> txStatus s = Pending \<or> txStatus s = Confirmed \<longrightarrow>
      clickCommit s = s
      \<and> txStatus (clickCommit s) = txStatus s \<and> txHash (clickCommit s) = txHash s)
   \<and> (commitmentHash s = [] \<longrightarrow> handleCommitProof s = s)
   \<and> (commitmentHash s \<noteq> [] \<and> txStatus s = Idle \<and> (demoMode s \<or> walletConnected s) \<longrightarrow>
        txStatus (clickCommit s) = Pending)"
  by (simp add: handleCommitProof_def clickCommit_def commitDisabled_def)

theorem clickCommit_noop_unless_ready_witness:
  "clickCommit initialState = initialState
   \<and> clickCommit (revealedState\<lparr>txStatus := Pending\<rparr>) = revealedState\<lparr>txStatus := Pending\<rparr>
   \<and> clickCommit (revealedState\<lparr>txStatus := Confirmed, txHash := ''0xcd''\<rparr>)
       = revealedState\<lparr>txStatus := Confirmed, txHash := ''0xcd''\<rparr>
   \<and> handleCommitProof initialState = initialState
   \<and> txStatus (clickCommit revealedState) = Pending"
proof -
  have empty: "commitmentHash initialState = []"
    by (simp add: initialState_def)
  have pending: "txStatus (revealedState\<lparr>txStatus := Pending\<rparr>) = Pending"
    and confirmed: "txStatus (revealedState\<lparr>txStatus := Confirmed, txHash := ''0xcd''\<rparr>) = Confirmed"
    by simp_all
  have ready: "commitmentHash revealedState \<noteq> [] \<and> txStatus revealedState = Idle
      \<and> (demoMode revealedState \<or> walletConnected revealedState)"
    by (simp add: revealedState_def initialState_def)
  show ?thesis
    using clickCommit_noop_unless_ready [of initialState] empty
      clickCommit_noop_unless_ready [of "revealedState\<lparr>txStatus := Pending\<rparr>"] pending
      clickCommit_noop_unless_ready
        [of "revealedState\<lparr>txStatus := Confirmed, txHash := ''0xcd''\<rparr>"] confirmed
      clickCommit_noop_unless_ready [of revealedState] ready
    by simp
qed

subsection \<open>Confidence\<close>

text \<open>
  Claim C3. For every value \<open>v\<close> put into the slider, while the decision is not locked
  the stored confidence is \<open>v\<close> clamped to \<open>[0, 100]\<close>: it lies in that interval, and
  equals \<open>v\<close> when \<open>v\<close> does. Once the lock flag is true the state, and the stored
  confidence with it, is unchanged for every \<open>v\<close>.
\<close>

theorem setConfidence_clamps:
  "(\<not> isLocked s \<longrightarrow>
      setConfidence v s = s\<lparr>userConfidence := max 0 (min 100 v)\<rparr>
      \<and> 0 \<le> userConfidence (setConfidence v s) \<and> userConfidence (setConfidence v s) \<le> 100
      \<and> (0 \<le> v \<and> v \<le> 100 \<longrightarrow> userConfidence (setConfidence v s) = v))
   \<and> (isLocked s \<longrightarrow>
      setConfidence v s = s \<and> userConfidence (setConfidence v s) = userConfidence s)"
  by (simp add: setConfidence_def onChangeConfidence_def sliderValue_def)

theorem setConfidence_clamps_witness:
  "userConfidence (setConfidence 40 initialState) = 40
   \<and> userConfidence (setConfidence 150 initialState) = 100
   \<and> userConfidence (setConfidence (- 5) initialState) = 0
   \<and> setConfidence 40 revealedState = revealedState
   \<and> userConfidence (setConfidence 40 revealedState) = 65"
proof -
  have unlocked: "\<not> isLocked initialState"
    by (simp add: initialState_def)
  have locked: "isLocked revealedState" and kept: "userConfidence revealedState = 65"
    by (simp_all add: revealedState_def initialState_def)
  show ?thesis
    using setConfidence_clamps [of initialState 40] setConfidence_clamps [of initialState 150]
      setConfidence_clamps [of initialState "- 5"] unlocked
      setConfidence_clamps [of revealedState 40] locked kept
    by simp
qed

subsection \<open>Reset\<close>

text \<open>
  Claim C4. From any state, \<open>resetDemo\<close> leaves the direction unset, the confidence at
  65, the lock flag false, the timer at 30 seconds, active and with its interval running,
  the time warning cleared, the outcome hidden, the commitment empty, the status idle and
  the transaction identifier empty.
\<close>

theorem resetDemo_restores:
  "userDirection (resetDemo s) = None
   \<and> userConfidence (resetDemo s) = 65
   \<and> isLocked (resetDemo s) = False
   \<and> timeRemaining (resetDemo s) = 30
   \<and> timerActive (resetDemo s) = True
   \<and> intervalRunning (resetDemo s)
   \<and> showTimeWarning (resetDemo s) = False
   \<and> showOutcome (resetDemo s) = False
   \<and> commitmentHash (resetDemo s) = []
   \<and> txStatus (resetDemo s) = Idle
   \<and> txHash (resetDemo s) = []"
  by (simp add: resetDemo_def intervalRunning_def)

theorem resetDemo_restores_witness:
  "resetDemo (initialState\<lparr>userDirection := Some DOWN, userConfidence := 12, isLocked := True,
      timeRemaining := 7, timerActive := False, showTimeWarning := True, showOutcome := True,
      commitmentHash := ''0xab'', txStatus := Confirmed, txHash := ''0xcd''\<rparr>) = initialState"
  using resetDemo_restores [of "initialState\<lparr>userDirection := Some DOWN, userConfidence := 12,
      isLocked := True, timeRemaining := 7, timerActive := False, showTimeWarning := True,
      showOutcome := True, commitmentHash := ''0xab'', txStatus := Confirmed, txHash := ''0xcd''\<rparr>"]
  by (simp add: resetDemo_def initialState_def)

text \<open>
  Claim C10. \<open>resetDemo\<close> leaves the outcome direction, the demo-mode flag and the wallet
  connection (flag and address) as they were.
\<close>

theorem resetDemo_frame:
  "outcome (resetDemo s) = outcome s
   \<and> demoMode (resetDemo s) = demoMode s
   \<and> walletConnected (resetDemo s) = walletConnected s
   \<and> walletAddress (resetDemo s) = walletAddress s"
  by (simp add: resetDemo_def)

theorem resetDemo_frame_witness:
  "outcome (resetDemo (initialState\<lparr>outcome := DOWN, demoMode := False, walletConnected := True,
      walletAddress := ''0x1234...5678'', isLocked := True\<rparr>)) = DOWN
   \<and> demoMode (resetDemo (initialState\<lparr>outcome := DOWN, demoMode := False, walletConnected := True,
      walletAddress := ''0x1234...5678'', isLocked := True\<rparr>)) = False
   \<and> walletConnected (resetDemo (initialState\<lparr>outcome := DOWN, demoMode := False,
      walletConnected := True, walletAddress := ''0x1234...5678'', isLocked := True\<rparr>)) = True
   \<and> walletAddress (resetDemo (initialState\<lparr>outcome := DOWN, demoMode := False,
      walletConnected := True, walletAddress := ''0x1234...5678'', isLocked := True\<rparr>))
       = ''0x1234...5678''"
  using resetDemo_frame [of "initialState\<lparr>outcome := DOWN, demoMode := False,
      walletConnected := True, walletAddress := ''0x1234...5678'', isLocked := True\<rparr>"]
  by simp

subsection \<open>Countdown expiry\<close>

text \<open>
  Claim C5. In a state with the timer active and the decision not locked, the timer
  effect at zero seconds sets the warning and stops the timer without locking when no
  direction is chosen (no reveal is scheduled), and runs \<open>handleLockIn\<close> when a direction
  is chosen, which locks, stops the timer and schedules the reveal. The tick that takes
  the countdown from one second to zero has the same two outcomes.
\<close>

theorem timerEffect_expiry:
  assumes "timerActive s" and "\<not> isLocked s"
  shows "(timeRemaining s \<le> 0 \<and> userDirection s = None \<longrightarrow>
            timerEffect s = s\<lparr>showTimeWarning := True, timerActive := False\<rparr>
            \<and> showTimeWarning (timerEffect s) \<and> \<not> timerActive (timerEffect s)
            \<and> \<not> isLocked (timerEffect s) \<and> timeouts (timerEffect s) = timeouts s)
         \<and> (timeRemaining s \<le> 0 \<and> userDirection s \<noteq> None \<longrightarrow>
            timerEffect s = handleLockIn s
            \<and> isLocked (timerEffect s) \<and> \<not> timerActive (timerEffect s)
            \<and> timeouts (timerEffect s) = timeouts s @ [(800, RevealOutcome)])
         \<and> (timeRemaining s = 1 \<and> userDirection s = None \<longrightarrow>
            tick s = s\<lparr>timeRemaining := 0, showTimeWarning := True, timerActive := False\<rparr>)
         \<and> (timeRemaining s = 1 \<and> userDirection s \<noteq> None \<longrightarrow>
            tick s = handleLockIn (s\<lparr>timeRemaining := 0\<rparr>) \<and> isLocked (tick s))"
  using assms
  by (simp add: timerEffect_def tick_def intervalRunning_def handleLockIn_def)

theorem timerEffect_expiry_witness:
  "timerEffect (initialState\<lparr>timeRemaining := 0\<rparr>)
     = initialState\<lparr>timeRemaining := 0, showTimeWarning := True, timerActive := False\<rparr>
   \<and> timerEffect (initialState\<lparr>timeRemaining := 0, userDirection := Some DOWN\<rparr>)
     = initialState\<lparr>timeRemaining := 0, userDirection := Some DOWN, isLocked := True,
         timerActive := False, timeouts := [(800, RevealOutcome)]\<rparr>
   \<and> tick (initialState\<lparr>timeRemaining := 1\<rparr>)
     = initialState\<lparr>timeRemaining := 0, showTimeWarning := True, timerActive := False\<rparr>
   \<and> isLocked (tick (initialState\<lparr>timeRemaining := 1, userDirection := Some UP\<rparr>))"
proof -
  have a: "timerActive (initialState\<lparr>timeRemaining := t, userDirection := d\<rparr>)
      \<and> \<not> isLocked (initialState\<lparr>timeRemaining := t, userDirection := d\<rparr>)" for t d
    by (simp add: initialState_def)
  have b: "initialState\<lparr>timeRemaining := t\<rparr> = initialState\<lparr>timeRemaining := t, userDirection := None\<rparr>" for t
    by (simp add: initialState_def)
  show ?thesis
    using timerEffect_expiry [of "initialState\<lparr>timeRemaining := 0, userDirection := None\<rparr>"]
      timerEffect_expiry [of "initialState\<lparr>timeRemaining := 0, userDirection := Some DOWN\<rparr>"]
      timerEffect_expiry [of "initialState\<lparr>timeRemaining := 1, userDirection := None\<rparr>"]
      timerEffect_expiry [of "initialState\<lparr>timeRemaining := 1, userDirection := Some UP\<rparr>"]
      a b
    by (simp add: initialState_def handleLockIn_def)
qed

subsection \<open>Locking in\<close>

lemma runCallback_keeps_shown: "showOutcome s \<Longrightarrow> showOutcome (runCallback random c s)"
  by (cases "(random, c, s)" rule: runCallback.cases) simp_all

lemma runCallback_shows_iff:
  "\<not> showOutcome s \<Longrightarrow> showOutcome (runCallback random c s) \<longleftrightarrow> c = RevealOutcome"
  by (cases "(random, c, s)" rule: runCallback.cases) simp_all

lemma fire_keeps_shown: "showOutcome s \<Longrightarrow> showOutcome (fire random t s)"
  by (simp add: fire_def runCallback_keeps_shown)

lemma fire_shows_iff:
  "\<not> showOutcome s \<Longrightarrow> showOutcome (fire random t s) \<longleftrightarrow> snd t = RevealOutcome"
  by (simp add: fire_def runCallback_shows_iff)

text \<open>Once the outcome is shown, no later firing reveals it again.\<close>

lemma revealCount_shown: "showOutcome s \<Longrightarrow> revealCount random ts s = 0"
  by (induction ts arbitrary: s) (simp_all add: fire_keeps_shown)

text \<open>
  From a hidden outcome, a run of timeouts with at least one reveal among them reveals
  the outcome exactly once, however many reveals it holds.
\<close>

lemma revealCount_once:
  "\<not> showOutcome s \<Longrightarrow> (d, RevealOutcome) \<in> set ts \<Longrightarrow> revealCount random ts s = 1"
proof (induction ts arbitrary: s)
  case Nil
  then show ?case by simp
next
  case (Cons t ts)
  show ?case
  proof (cases "snd t = RevealOutcome")
    case True
    with Cons.prems(1) have "showOutcome (fire random t s)"
      by (simp add: fire_shows_iff)
    with Cons.prems(1) show ?thesis
      by (simp add: revealCount_shown)
  next
    case False
    with Cons.prems have later: "(d, RevealOutcome) \<in> set ts"
      and hidden: "\<not> showOutcome (fire random t s)"
      by (auto simp add: fire_shows_iff)
    from Cons.IH [OF hidden later] hidden show ?thesis
      by simp
  qed
qed

text \<open>
  Claim C6. Without a direction \<open>handleLockIn\<close> returns the state as it is, its queue of
  timeouts included. With a direction it sets the lock flag, stops the timer and queues
  the reveal with a delay of 800 ms, whose firing shows the outcome. A second call leaves
  the lock flag, the timer and every other field but the queue as the first call left
  them. From a hidden outcome the queued timeouts reveal the outcome exactly once, after
  one call and after two; and a second call made after the reveal has fired reveals
  nothing more.
\<close>

theorem handleLockIn_effect:
  "(userDirection s = None \<longrightarrow> handleLockIn s = s)
   \<and> (userDirection s \<noteq> None \<longrightarrow>
        isLocked (handleLockIn s) \<and> \<not> timerActive (handleLockIn s)
        \<and> timeouts (handleLockIn s) = timeouts s @ [(800, RevealOutcome)]
        \<and> showOutcome (fire random (800, RevealOutcome) (handleLockIn s))
        \<and> isLocked (handleLockIn (handleLockIn s)) = isLocked (handleLockIn s)
        \<and> timerActive (handleLockIn (handleLockIn s)) = timerActive (handleLockIn s)
        \<and> (handleLockIn (handleLockIn s))\<lparr>timeouts := q\<rparr> = (handleLockIn s)\<lparr>timeouts := q\<rparr>
        \<and> (\<not> showOutcome s \<longrightarrow>
             revealCount random (timeouts (handleLockIn s)) (handleLockIn s) = 1
             \<and> revealCount random (timeouts (handleLockIn (handleLockIn s)))
                 (handleLockIn (handleLockIn s)) = 1
             \<and> revealCount random
                 (timeouts (handleLockIn (fire random (800, RevealOutcome) (handleLockIn s))))
                 (handleLockIn (fire random (800, RevealOutcome) (handleLockIn s))) = 0))"
proof -
  have noop: "userDirection s = None \<Longrightarrow> handleLockIn s = s"
    by (simp add: handleLockIn_def)
  have fields: "isLocked (handleLockIn s) \<and> \<not> timerActive (handleLockIn s)
      \<and> timeouts (handleLockIn s) = timeouts s @ [(800, RevealOutcome)]
      \<and> userDirection (handleLockIn s) = userDirection s
      \<and> showOutcome (handleLockIn s) = showOutcome s"
    if "userDirection s \<noteq> None" for s
    using that by (simp add: handleLockIn_def)
  have again: "isLocked (handleLockIn (handleLockIn s)) = isLocked (handleLockIn s)
      \<and> timerActive (handleLockIn (handleLockIn s)) = timerActive (handleLockIn s)
      \<and> (handleLockIn (handleLockIn s))\<lparr>timeouts := q\<rparr> = (handleLockIn s)\<lparr>timeouts := q\<rparr>"
    by (simp add: handleLockIn_def)
  have shown: "showOutcome (fire r (800, RevealOutcome) t)" for r t
    by (simp add: fire_def)
  have once: "revealCount random (timeouts (handleLockIn t)) (handleLockIn t) = 1"
    if "userDirection t \<noteq> None" "\<not> showOutcome t" for t
  proof -
    from that fields [of t] have "\<not> showOutcome (handleLockIn t)"
      and "(800, RevealOutcome) \<in> set (timeouts (handleLockIn t))"
      by simp_all
    then show ?thesis by (rule revealCount_once)
  qed
  have twice: "revealCount random (timeouts (handleLockIn (handleLockIn s)))
                 (handleLockIn (handleLockIn s)) = 1"
    if "userDirection s \<noteq> None" "\<not> showOutcome s"
    using that fields [of s] once [of "handleLockIn s"] by simp
  have late: "revealCount random
                 (timeouts (handleLockIn (fire random (800, RevealOutcome) (handleLockIn s))))
                 (handleLockIn (fire random (800, RevealOutcome) (handleLockIn s))) = 0"
  proof -
    have "showOutcome (handleLockIn (fire random (800, RevealOutcome) (handleLockIn s)))"
      using shown [of random "handleLockIn s"] by (simp add: handleLockIn_def)
    then show ?thesis by (rule revealCount_shown)
  qed
  show ?thesis
    using noop fields [of s] again shown once [of s] twice late by simp
qed

theorem handleLockIn_effect_witness:
  "handleLockIn initialState = initialState
   \<and> isLocked (handleLockIn (chooseDirection UP initialState))
   \<and> \<not> timerActive (handleLockIn (chooseDirection UP initialState))
   \<and> timeouts (handleLockIn (chooseDirection UP initialState)) = [(800, RevealOutcome)]
   \<and> timeouts (handleLockIn (handleLockIn (chooseDirection UP initialState)))
       = [(800, RevealOutcome), (800, RevealOutcome)]
   \<and> revealCount (\<lambda>i. 0)
        (timeouts (handleLockIn (handleLockIn (chooseDirection UP initialState))))
        (handleLockIn (handleLockIn (chooseDirection UP initialState))) = 1"
proof -
  have chosen: "chooseDirection UP initialState = initialState\<lparr>userDirection := Some UP\<rparr>"
    by (simp add: chooseDirection_def initialState_def)
  have queue: "timeouts (handleLockIn (handleLockIn (initialState\<lparr>userDirection := Some UP\<rparr>)))
       = [(800, RevealOutcome), (800, RevealOutcome)]"
    by (simp add: handleLockIn_def initialState_def)
  show ?thesis
    unfolding chosen
    using handleLockIn_effect [of initialState]
      handleLockIn_effect [of "initialState\<lparr>userDirection := Some UP\<rparr>" "\<lambda>i. 0"] queue
    by (simp add: initialState_def)
qed

subsection \<open>Hexadecimal strings\<close>

lemma hexChar_isHexDigit: "isHexDigit (hexChar d)"
proof -
  have "d mod 16 < length ''0123456789abcdef''" by simp
  then have "''0123456789abcdef'' ! (d mod 16) \<in> set ''0123456789abcdef''"
    by (rule nth_mem)
  then show ?thesis by (simp only: isHexDigit_def hexChar_def)
qed

lemma toString16_digit: "n < 16 \<Longrightarrow> toString16 n = [hexChar n]"
  by (simp add: toString16.simps)

lemma random_digit_bound:
  fixes r :: rat
  assumes "0 \<le> r" and "r < 1"
  shows "nat \<lfloor>r * 16\<rfloor> < 16"
proof -
  from assms(2) have "r * 16 < 16" by simp
  then have "\<lfloor>r * 16\<rfloor> < 16" by (simp add: floor_less_iff)
  then show ?thesis by linarith
qed

lemma fakeTxHash_digits:
  assumes "\<forall>i<64. 0 \<le> random i \<and> random i < 1"
  shows "fakeTxHash random = ''0x'' @ map (\<lambda>i. hexChar (nat \<lfloor>random i * 16\<rfloor>)) [0..<64]"
proof -
  have "map (\<lambda>i. toString16 (nat \<lfloor>random i * 16\<rfloor>)) [0..<64]
      = map (\<lambda>i. [hexChar (nat \<lfloor>random i * 16\<rfloor>)]) [0..<64]"
    using assms by (intro map_cong refl toString16_digit random_digit_bound) simp_all
  moreover have "concat (map (\<lambda>i. [f i]) xs) = map f xs" for f :: "nat \<Rightarrow> char" and xs
    by (induction xs) simp_all
  ultimately show ?thesis
    by (simp only: fakeTxHash_def)
qed

lemma fakeTxHash_isHex32:
  assumes "\<forall>i<64. 0 \<le> random i \<and> random i < 1"
  shows "isHex32 (fakeTxHash random)"
  unfolding fakeTxHash_digits [OF assms] isHex32_def
  by (simp add: list_all_iff hexChar_isHexDigit del: upt_rec_numeral)

lemma hexChar_inj: "a < 16 \<Longrightarrow> b < 16 \<Longrightarrow> hexChar a = hexChar b \<longleftrightarrow> a = b"
proof -
  assume "a < 16" "b < 16"
  moreover have "distinct ''0123456789abcdef''" by simp
  ultimately show ?thesis
    by (simp only: hexChar_def) (simp add: nth_eq_iff_index_eq)
qed

lemma fakeTxHash_inj:
  assumes "\<forall>i<64. 0 \<le> random i \<and> random i < 1" and "\<forall>i<64. 0 \<le> random' i \<and> random' i < 1"
  shows "fakeTxHash random = fakeTxHash random'
     \<longleftrightarrow> (\<forall>i<64. \<lfloor>random i * 16\<rfloor> = \<lfloor>random' i * 16\<rfloor>)"
proof -
  have "hexChar (nat \<lfloor>random i * 16\<rfloor>) = hexChar (nat \<lfloor>random' i * 16\<rfloor>)
      \<longleftrightarrow> \<lfloor>random i * 16\<rfloor> = \<lfloor>random' i * 16\<rfloor>" if "i < 64" for i
  proof -
    from that assms have r: "0 \<le> random i" "random i < 1" and r': "0 \<le> random' i" "random' i < 1"
      by simp_all
    have "0 \<le> \<lfloor>random i * 16\<rfloor>" "0 \<le> \<lfloor>random' i * 16\<rfloor>"
      using r(1) r'(1) by simp_all
    then show ?thesis
      using hexChar_inj [OF random_digit_bound [OF r] random_digit_bound [OF r']]
      by (simp only: nat_eq_iff) simp
  qed
  then show ?thesis
    unfolding fakeTxHash_digits [OF assms(1)] fakeTxHash_digits [OF assms(2)]
    by (auto simp add: map_eq_conv simp del: upt_rec_numeral)
qed

subsection \<open>Demo submission\<close>

text \<open>
  Claim C7. In demo mode a submission, made with a commitment present (without one
  \<open>handleCommitProof\<close> returns at once), sets the status to pending at once, leaves the
  transaction identifier as it was, and queues its continuation with the fixed delay of
  2000 ms. When that
  timeout fires, on whatever state \<open>s'\<close> it finds, the status becomes confirmed (the
  branch has no failure path) and the identifier becomes the one generated from the draws
  of this firing. With every draw of \<open>Math.random()\<close> in \<open>[0, 1)\<close> the identifier is
  \<open>'0x'\<close> followed by 64 hexadecimal digits, and two firings get the same identifier
  only if all their 64 digit draws coincide.
\<close>

theorem demo_submit_confirms:
  assumes "demoMode s" and "commitmentHash s \<noteq> []"
    and "\<forall>i<64. 0 \<le> random i \<and> random i < 1"
  shows "txStatus (handleCommitProof s) = Pending
     \<and> txHash (handleCommitProof s) = txHash s
     \<and> timeouts (handleCommitProof s) = timeouts s @ [(2000, FinishCommit True)]
     \<and> txStatus (fire random (2000, FinishCommit True) s') = Confirmed
     \<and> txHash (fire random (2000, FinishCommit True) s') = fakeTxHash random
     \<and> isHex32 (fakeTxHash random)
     \<and> ((\<forall>i<64. 0 \<le> random' i \<and> random' i < 1) \<longrightarrow>
          (fakeTxHash random = fakeTxHash random'
            \<longleftrightarrow> (\<forall>i<64. \<lfloor>random i * 16\<rfloor> = \<lfloor>random' i * 16\<rfloor>)))"
proof -
  have submit: "txStatus (handleCommitProof s) = Pending
     \<and> txHash (handleCommitProof s) = txHash s
     \<and> timeouts (handleCommitProof s) = timeouts s @ [(2000, FinishCommit True)]"
    using assms(1,2) by (simp add: handleCommitProof_def)
  have confirm: "txStatus (fire random (2000, FinishCommit True) s') = Confirmed
     \<and> txHash (fire random (2000, FinishCommit True) s') = fakeTxHash random"
    by (simp add: fire_def)
  from submit confirm fakeTxHash_isHex32 [OF assms(3)] fakeTxHash_inj [OF assms(3)]
  show ?thesis by blast
qed

theorem demo_submit_confirms_witness:
  "txStatus (handleCommitProof (initialState\<lparr>commitmentHash := ''0xab''\<rparr>)) = Pending
   \<and> timeouts (handleCommitProof (initialState\<lparr>commitmentHash := ''0xab''\<rparr>)) = [(2000, FinishCommit True)]
   \<and> txStatus (fire (\<lambda>i. 1 / 2) (2000, FinishCommit True)
        (handleCommitProof (initialState\<lparr>commitmentHash := ''0xab''\<rparr>))) = Confirmed
   \<and> txHash (fire (\<lambda>i. 1 / 2) (2000, FinishCommit True)
        (handleCommitProof (initialState\<lparr>commitmentHash := ''0xab''\<rparr>)))
       = ''0x8888888888888888888888888888888888888888888888888888888888888888''
   \<and> isHex32 ''0x8888888888888888888888888888888888888888888888888888888888888888''
   \<and> fakeTxHash (\<lambda>i. 1 / 2) \<noteq> fakeTxHash (\<lambda>i. 1 / 4)"
proof -
  have demo: "demoMode (initialState\<lparr>commitmentHash := ''0xab''\<rparr>)"
    and hash: "commitmentHash (initialState\<lparr>commitmentHash := ''0xab''\<rparr>) \<noteq> []"
    and draws: "\<forall>i<64::nat. (0::rat) \<le> (\<lambda>i. 1 / 2) i \<and> (\<lambda>i. 1 / 2) i < (1::rat)"
    and draws': "\<forall>i<64::nat. (0::rat) \<le> (\<lambda>i. 1 / 4) i \<and> (\<lambda>i. 1 / 4) i < (1::rat)"
    by (simp_all add: initialState_def)
  note inst = demo_submit_confirms [OF demo hash draws,
        of "handleCommitProof (initialState\<lparr>commitmentHash := ''0xab''\<rparr>)" "\<lambda>i. 1 / 4"]
  have digits: "fakeTxHash (\<lambda>i. 1 / 2)
      = ''0x8888888888888888888888888888888888888888888888888888888888888888''"
    by code_simp
  have differ: "\<not> (\<forall>i<64::nat. \<lfloor>(\<lambda>i. 1 / 2 :: rat) i * 16\<rfloor> = \<lfloor>(\<lambda>i. 1 / 4 :: rat) i * 16\<rfloor>)"
    by (simp add: exI [of _ 0])
  from inst draws' differ have fresh: "fakeTxHash (\<lambda>i. 1 / 2) \<noteq> fakeTxHash (\<lambda>i. 1 / 4)"
    by blast
  from inst fresh show ?thesis
    by (simp add: digits initialState_def)
qed

subsection \<open>Commitment digest\<close>

text \<open>The two encoders lose nothing: different values give different bytes.\<close>

lemma stringToBytes_inj: "stringToBytes a = stringToBytes b \<longleftrightarrow> a = b"
proof -
  have "inj (\<lambda>c. word_of_nat (of_char c) :: byte)"
  proof (rule injI)
    fix c d :: char
    assume "(word_of_nat (of_char c) :: byte) = word_of_nat (of_char d)"
    then have "take_bit 8 (of_char c :: nat) = take_bit 8 (of_char d :: nat)"
      by (simp add: word_of_nat_eq_iff)
    then show "c = d"
      by (simp add: take_bit_eq_mod)
  qed
  then show ?thesis
    by (simp add: stringToBytes_def inj_map_eq_map)
qed

lemma uint256ToBytes_length: "length (uint256ToBytes n) = 32"
  by (simp add: uint256ToBytes_def)

lemma low_digits_determine:
  fixes n m :: int
  assumes "\<forall>j<k. n div 256 ^ j mod 256 = m div 256 ^ j mod 256"
  shows "n mod 256 ^ k = m mod 256 ^ k"
  using assms
proof (induction k)
  case 0
  show ?case by simp
next
  case (Suc k)
  then have low: "n mod 256 ^ k = m mod 256 ^ k"
    and top: "n div 256 ^ k mod 256 = m div 256 ^ k mod 256"
    by simp_all
  have "x mod 256 ^ Suc k = 256 ^ k * (x div 256 ^ k mod 256) + x mod 256 ^ k" for x :: int
    using mod_mult2_eq' [of x "256 ^ k" 256] by (simp add: mult.commute)
  with low top show ?case by simp
qed

lemma uint256ToBytes_inj:
  assumes "0 \<le> n" "n < 2 ^ 256" "0 \<le> m" "m < 2 ^ 256"
  shows "uint256ToBytes n = uint256ToBytes m \<longleftrightarrow> n = m"
proof
  assume eq: "uint256ToBytes n = uint256ToBytes m"
  have "n div 256 ^ j mod 256 = m div 256 ^ j mod 256" if "j < 32" for j
  proof -
    from that have "31 - j < 32" and "31 - (31 - j) = j" by simp_all
    with eq have "(word_of_int (n div 256 ^ j) :: byte) = word_of_int (m div 256 ^ j)"
      by (auto simp add: uint256ToBytes_def map_eq_conv simp del: upt_rec_numeral dest!: bspec [where x = "31 - j"])
    then show ?thesis
      by (simp add: word_of_int_eq_iff take_bit_eq_mod)
  qed
  then have "n mod 256 ^ 32 = m mod 256 ^ 32"
    by (intro low_digits_determine) simp
  moreover have "(256::int) ^ 32 = 2 ^ 256" by simp
  ultimately show "n = m"
    using assms by simp
qed simp

text \<open>The 64 digits of \<open>toHex256\<close> determine the digest.\<close>

lemma nibble_eq:
  fixes a b :: "256 word"
  shows "hexChar (unat (a AND 15)) = hexChar (unat (b AND 15)) \<longleftrightarrow> take_bit 4 a = take_bit 4 b"
proof -
  have m: "x AND 15 = take_bit 4 x" for x :: "256 word"
    by (simp add: take_bit_eq_mask mask_eq_exp_minus_1)
  have "unat (take_bit 4 x) < 16" for x :: "256 word"
    using unsigned_take_bit_eq [of 4 x, where ?'a = nat] take_bit_nat_less_exp [of 4 "unat x"]
    by simp
  then show ?thesis
    by (auto simp add: m hexChar_inj intro: unsigned_word_eqI)
qed

lemma toHex256_inj: "toHex256 v = toHex256 w \<longleftrightarrow> v = w"
proof
  assume "toHex256 v = toHex256 w"
  then have nib: "take_bit 4 (drop_bit (4 * (63 - i)) v) = take_bit 4 (drop_bit (4 * (63 - i)) w)"
    if "i < 64" for i
    using that by (simp add: toHex256_def map_eq_conv nibble_eq del: upt_rec_numeral)
  show "v = w"
  proof (rule bit_word_eqI)
    fix n
    assume "n < LENGTH(256)"
    then have n: "n < 256" by simp
    then have i: "63 - n div 4 < 64" and k: "63 - (63 - n div 4) = n div 4" by simp_all
    from nib [OF i] have "take_bit 4 (drop_bit (4 * (n div 4)) v) = take_bit 4 (drop_bit (4 * (n div 4)) w)"
      by (simp only: k)
    then have "bit (take_bit 4 (drop_bit (4 * (n div 4)) v)) (n mod 4)
        = bit (take_bit 4 (drop_bit (4 * (n div 4)) w)) (n mod 4)"
      by simp
    then show "bit v n = bit w n"
      by (simp add: bit_take_bit_iff bit_drop_bit_eq)
  qed
qed simp

lemma keccak256_inj: "keccak256 K bs = keccak256 K bs' \<longleftrightarrow> K bs = K bs'"
  by (simp add: keccak256_def toHex256_inj)

text \<open>
  The direction strings end in different bytes, so a direction string at the end of a
  byte string can be read back.
\<close>

lemma userDirectionString_suffix:
  "xs @ stringToBytes (userDirectionString s) = ys @ stringToBytes (userDirectionString s')
     \<longleftrightarrow> userDirection s = userDirection s' \<and> xs = ys"
proof
  assume eq: "xs @ stringToBytes (userDirectionString s) = ys @ stringToBytes (userDirectionString s')"
  then have "last (xs @ stringToBytes (userDirectionString s))
      = last (ys @ stringToBytes (userDirectionString s'))"
    by simp
  then have same: "userDirection s = userDirection s'"
    by (auto simp add: userDirectionString_def directionString_def stringToBytes_def
        split: option.splits Direction.splits)
  then have "userDirectionString s = userDirectionString s'"
    by (simp add: userDirectionString_def)
  with eq same show "userDirection s = userDirection s' \<and> xs = ys" by simp
next
  assume "userDirection s = userDirection s' \<and> xs = ys"
  then show "xs @ stringToBytes (userDirectionString s) = ys @ stringToBytes (userDirectionString s')"
    by (simp add: userDirectionString_def)
qed

lemma directionString_suffix:
  "xs @ stringToBytes (directionString d) = ys @ stringToBytes (directionString d')
     \<longleftrightarrow> d = d' \<and> xs = ys"
proof
  assume eq: "xs @ stringToBytes (directionString d) = ys @ stringToBytes (directionString d')"
  then have "last (xs @ stringToBytes (directionString d))
      = last (ys @ stringToBytes (directionString d'))"
    by simp
  then have same: "d = d'"
    by (auto simp add: directionString_def stringToBytes_def split: Direction.splits)
  with eq show "d = d' \<and> xs = ys" by simp
qed simp

lemma encodePacked_commitmentInputs:
  "encodePacked (commitmentInputs s now) =
     (if userConfidence s < 0 \<or> 2 ^ 256 \<le> userConfidence s
      then Inl (IntegerOutOfRange (userConfidence s))
      else if now div 1000 < 0 \<or> 2 ^ 256 \<le> now div 1000
      then Inl (IntegerOutOfRange (now div 1000))
      else Inr (stringToBytes (commitmentAddress s) @ stringToBytes ''UP'' @ uint256ToBytes 78
                @ stringToBytes (userDirectionString s) @ uint256ToBytes (userConfidence s)
                @ stringToBytes (directionString (outcome s)) @ uint256ToBytes (now div 1000)))"
  by (simp add: commitmentInputs_def Let_def mockAIAnalysis_def directionString_def)

lemma append_uint256_eq:
  assumes "0 \<le> n" "n < 2 ^ 256" "0 \<le> m" "m < 2 ^ 256"
  shows "xs @ uint256ToBytes n = ys @ uint256ToBytes m \<longleftrightarrow> xs = ys \<and> n = m"
  using uint256ToBytes_inj [OF assms]
  by (simp add: uint256ToBytes_length)

lemma packed_inj:
  assumes s: "0 \<le> userConfidence s" "userConfidence s < 2 ^ 256"
    and t: "0 \<le> ts" "ts < 2 ^ 256"
    and s': "0 \<le> userConfidence s'" "userConfidence s' < 2 ^ 256"
    and t': "0 \<le> ts'" "ts' < 2 ^ 256"
  shows "stringToBytes (commitmentAddress s) @ stringToBytes ''UP'' @ uint256ToBytes 78
            @ stringToBytes (userDirectionString s) @ uint256ToBytes (userConfidence s)
            @ stringToBytes (directionString (outcome s)) @ uint256ToBytes ts
       = stringToBytes (commitmentAddress s') @ stringToBytes ''UP'' @ uint256ToBytes 78
            @ stringToBytes (userDirectionString s') @ uint256ToBytes (userConfidence s')
            @ stringToBytes (directionString (outcome s')) @ uint256ToBytes ts'
     \<longleftrightarrow> commitmentAddress s = commitmentAddress s' \<and> userDirection s = userDirection s'
         \<and> userConfidence s = userConfidence s' \<and> outcome s = outcome s' \<and> ts = ts'"
    (is "?A @ ?U @ ?C @ ?D @ ?N @ ?O @ ?T = ?A' @ ?U @ ?C @ ?D' @ ?N' @ ?O' @ ?T' \<longleftrightarrow> ?same")
proof
  assume "?A @ ?U @ ?C @ ?D @ ?N @ ?O @ ?T = ?A' @ ?U @ ?C @ ?D' @ ?N' @ ?O' @ ?T'"
  then have "(?A @ ?U @ ?C @ ?D @ ?N @ ?O) @ ?T = (?A' @ ?U @ ?C @ ?D' @ ?N' @ ?O') @ ?T'"
    by (simp only: append_assoc)
  then have step1: "?A @ ?U @ ?C @ ?D @ ?N @ ?O = ?A' @ ?U @ ?C @ ?D' @ ?N' @ ?O'" and ts: "ts = ts'"
    unfolding append_uint256_eq [OF t t'] by blast+
  from step1 have "(?A @ ?U @ ?C @ ?D @ ?N) @ ?O = (?A' @ ?U @ ?C @ ?D' @ ?N') @ ?O'"
    by (simp only: append_assoc)
  then have out: "outcome s = outcome s'" and step2: "?A @ ?U @ ?C @ ?D @ ?N = ?A' @ ?U @ ?C @ ?D' @ ?N'"
    unfolding directionString_suffix by blast+
  from step2 have "(?A @ ?U @ ?C @ ?D) @ ?N = (?A' @ ?U @ ?C @ ?D') @ ?N'"
    by (simp only: append_assoc)
  then have step3: "?A @ ?U @ ?C @ ?D = ?A' @ ?U @ ?C @ ?D'" and conf: "userConfidence s = userConfidence s'"
    unfolding append_uint256_eq [OF s s'] by blast+
  from step3 have "(?A @ ?U @ ?C) @ ?D = (?A' @ ?U @ ?C) @ ?D'"
    by (simp only: append_assoc)
  then have dir: "userDirection s = userDirection s'" and step4: "?A @ ?U @ ?C = ?A' @ ?U @ ?C"
    unfolding userDirectionString_suffix by blast+
  from step4 have "?A = ?A'"
    by (simp only: append_same_eq)
  then have "commitmentAddress s = commitmentAddress s'"
    by (simp only: stringToBytes_inj)
  with dir conf out ts show ?same by blast
next
  assume ?same
  then have "userDirectionString s = userDirectionString s'"
    by (simp add: userDirectionString_def)
  with \<open>?same\<close> show "?A @ ?U @ ?C @ ?D @ ?N @ ?O @ ?T = ?A' @ ?U @ ?C @ ?D' @ ?N' @ ?O' @ ?T'"
    by (simp only:)
qed

lemma toHex256_shape: "length (toHex256 w) = 64 \<and> list_all isHexDigit (toHex256 w)"
  by (simp add: toHex256_def list_all_iff hexChar_isHexDigit del: upt_rec_numeral)

lemma keccak256_isHex32: "isHex32 (keccak256 K bs)"
  using toHex256_shape [of "K bs"] by (simp add: isHex32_def keccak256_def)

lemma zero_digest_isHex32: "isHex32 (''0x'' @ replicate 64 (CHR ''0''))"
  by (simp add: isHex32_def isHexDigit_def list_all_iff)

lemma computeCommitment_isHex32: "isHex32 (computeCommitment K s now)"
proof (cases "encodePacked (commitmentInputs s now)")
  case (Inl e)
  then show ?thesis
    by (simp only: computeCommitment_def sum.case zero_digest_isHex32)
next
  case (Inr packed)
  then show ?thesis
    by (simp only: computeCommitment_def sum.case keccak256_isHex32)
qed

text \<open>
  What the commitment effect stores is such a digest, so it is never the empty string
  that \<open>handleCommitProof\<close> refuses.
\<close>

lemma commitmentEffect_stores:
  assumes "isLocked s" and "showOutcome s"
  shows "commitmentHash (commitmentEffect K now s) = computeCommitment K s now"
    and "commitmentHash (commitmentEffect K now s) \<noteq> [] \<longleftrightarrow> isHex32 (computeCommitment K s now)"
proof -
  show stored: "commitmentHash (commitmentEffect K now s) = computeCommitment K s now"
    using assms by (simp add: commitmentEffect_def)
  have "isHex32 (computeCommitment K s now)"
  proof (cases "encodePacked (commitmentInputs s now)")
    case (Inl e)
    then show ?thesis
      by (simp only: computeCommitment_def sum.case zero_digest_isHex32)
  next
    case (Inr packed)
    then show ?thesis
      by (simp only: computeCommitment_def sum.case keccak256_isHex32)
  qed
  moreover from this have "computeCommitment K s now \<noteq> []"
    by (auto simp add: isHex32_def)
  ultimately show "commitmentHash (commitmentEffect K now s) \<noteq> [] \<longleftrightarrow> isHex32 (computeCommitment K s now)"
    by (simp add: stored)
qed

text \<open>The two digests of the closed examples, and how \<open>revealedState\<close> is reached.\<close>

lemma sample_digest_first:
  "computeCommitment sampleHash revealedState 1700000000123
     = ''0x0867ff2d5b5479eb83c0aac62aa756d7ae1b43149056b697a39b4c0bf542ddf3''"
  by code_simp

lemma sample_digest_toggled:
  "computeCommitment sampleHash (handleRandomizeOutcome revealedState) 1700000005000
     = ''0x1781cb509715c50d6b464554080c2c55873d75969fbc727208cb320c17a7f48b''"
  by code_simp

lemma revealedState_reached:
  "commitmentEffect sampleHash 1700000000123
     (fire random (800, RevealOutcome) (handleLockIn (chooseDirection UP initialState)))
   = revealedState"
proof -
  have "fire random (800, RevealOutcome) (handleLockIn (chooseDirection UP initialState))
      = revealedState\<lparr>commitmentHash := []\<rparr>"
    by (simp add: fire_def handleLockIn_def chooseDirection_def initialState_def revealedState_def)
  moreover have "computeCommitment K (s\<lparr>commitmentHash := h\<rparr>) now = computeCommitment K s now" for K s h now
    by (simp add: computeCommitment_def commitmentInputs_def commitmentAddress_def
        userDirectionString_def)
  moreover have "isLocked revealedState" "showOutcome revealedState"
    by (simp_all add: revealedState_def)
  ultimately show ?thesis
    by (simp add: commitmentEffect_def sample_digest_first) (simp add: revealedState_def)
qed

text \<open>
  Claim C8. \<open>computeCommitment\<close> always returns a string of the form \<open>'0x'\<close> plus 64
  hexadecimal digits, and being a plain string it never hands an exception to its caller.
  The encoding of its inputs fails exactly when the confidence or the Unix timestamp
  (\<open>now\<close> in milliseconds, divided by 1000 and rounded down) does not fit a \<open>uint256\<close>,
  and then the result is the all-zero digest. Otherwise the packed bytes are, in this
  order, the actor identifier (\<open>'0xDemoUser'\<close> in demo mode, else the wallet address, or
  \<open>'0x0'\<close> when that is empty), the analysis direction \<open>UP\<close> and confidence 78, the user
  direction (\<open>'NONE'\<close> when unset) and confidence, the outcome, and the timestamp; the
  result is \<open>'0x'\<close> and the 64 digits of the hash of these bytes. Every one of these
  inputs reaches the hash: two packed encodings are equal only if actor identifier, user
  direction, user confidence, outcome and timestamp are all equal, and two commitments
  are equal only if the hash gives the same digest on the two encodings.
\<close>

theorem computeCommitment_digest:
  "isHex32 (computeCommitment K s now)
   \<and> ((\<exists>e. encodePacked (commitmentInputs s now) = Inl e) \<longleftrightarrow>
        userConfidence s < 0 \<or> 2 ^ 256 \<le> userConfidence s
        \<or> now div 1000 < 0 \<or> 2 ^ 256 \<le> now div 1000)
   \<and> ((\<exists>e. encodePacked (commitmentInputs s now) = Inl e) \<longrightarrow>
        computeCommitment K s now = ''0x'' @ replicate 64 (CHR ''0''))
   \<and> (0 \<le> userConfidence s \<and> userConfidence s < 2 ^ 256
        \<and> 0 \<le> now div 1000 \<and> now div 1000 < 2 ^ 256 \<longrightarrow>
       encodePacked (commitmentInputs s now) =
         Inr (stringToBytes (if demoMode s then ''0xDemoUser''
                             else if walletAddress s = [] then ''0x0'' else walletAddress s)
              @ stringToBytes ''UP'' @ uint256ToBytes 78
              @ stringToBytes (case userDirection s of
                                 None \<Rightarrow> ''NONE'' | Some UP \<Rightarrow> ''UP'' | Some DOWN \<Rightarrow> ''DOWN'')
              @ uint256ToBytes (userConfidence s)
              @ stringToBytes (case outcome s of UP \<Rightarrow> ''UP'' | DOWN \<Rightarrow> ''DOWN'')
              @ uint256ToBytes (now div 1000)))
   \<and> (\<forall>p. encodePacked (commitmentInputs s now) = Inr p \<longrightarrow>
        computeCommitment K s now = ''0x'' @ toHex256 (K p))
   \<and> (0 \<le> userConfidence s \<and> userConfidence s < 2 ^ 256
        \<and> 0 \<le> now div 1000 \<and> now div 1000 < 2 ^ 256
        \<and> 0 \<le> userConfidence s' \<and> userConfidence s' < 2 ^ 256
        \<and> 0 \<le> now' div 1000 \<and> now' div 1000 < 2 ^ 256 \<longrightarrow>
       (encodePacked (commitmentInputs s now) = encodePacked (commitmentInputs s' now') \<longleftrightarrow>
          (if demoMode s then ''0xDemoUser''
           else if walletAddress s = [] then ''0x0'' else walletAddress s)
            = (if demoMode s' then ''0xDemoUser''
               else if walletAddress s' = [] then ''0x0'' else walletAddress s')
          \<and> userDirection s = userDirection s' \<and> userConfidence s = userConfidence s'
          \<and> outcome s = outcome s' \<and> now div 1000 = now' div 1000))
   \<and> (\<forall>p p'. encodePacked (commitmentInputs s now) = Inr p
          \<and> encodePacked (commitmentInputs s' now') = Inr p' \<longrightarrow>
        (computeCommitment K s now = computeCommitment K s' now' \<longleftrightarrow> K p = K p'))"
proof -
  let ?R = "\<lambda>s now. 0 \<le> userConfidence s \<and> userConfidence s < 2 ^ 256
        \<and> 0 \<le> now div 1000 \<and> now div 1000 < (2 ^ 256 :: int)"
  have fails: "(\<exists>e. encodePacked (commitmentInputs s now) = Inl e) \<longleftrightarrow>
        userConfidence s < 0 \<or> 2 ^ 256 \<le> userConfidence s
        \<or> now div 1000 < 0 \<or> 2 ^ 256 \<le> now div 1000"
    by (auto simp add: encodePacked_commitmentInputs)
  have fallback: "computeCommitment K s now = ''0x'' @ replicate 64 (CHR ''0'')"
    if "\<exists>e. encodePacked (commitmentInputs s now) = Inl e"
    using that by (auto simp add: computeCommitment_def)
  have packed: "encodePacked (commitmentInputs s now) =
         Inr (stringToBytes (if demoMode s then ''0xDemoUser''
                             else if walletAddress s = [] then ''0x0'' else walletAddress s)
              @ stringToBytes ''UP'' @ uint256ToBytes 78
              @ stringToBytes (case userDirection s of
                                 None \<Rightarrow> ''NONE'' | Some UP \<Rightarrow> ''UP'' | Some DOWN \<Rightarrow> ''DOWN'')
              @ uint256ToBytes (userConfidence s)
              @ stringToBytes (case outcome s of UP \<Rightarrow> ''UP'' | DOWN \<Rightarrow> ''DOWN'')
              @ uint256ToBytes (now div 1000))"
    if "?R s now"
    using that
    by (simp add: encodePacked_commitmentInputs commitmentAddress_def userDirectionString_def
        directionString_def split: option.split Direction.split)
  have hashed: "computeCommitment K t n = ''0x'' @ toHex256 (K p)"
    if "encodePacked (commitmentInputs t n) = Inr p" for t n p
    using that by (simp add: computeCommitment_def keccak256_def)
  have inj: "encodePacked (commitmentInputs s now) = encodePacked (commitmentInputs s' now') \<longleftrightarrow>
          (if demoMode s then ''0xDemoUser''
           else if walletAddress s = [] then ''0x0'' else walletAddress s)
            = (if demoMode s' then ''0xDemoUser''
               else if walletAddress s' = [] then ''0x0'' else walletAddress s')
          \<and> userDirection s = userDirection s' \<and> userConfidence s = userConfidence s'
          \<and> outcome s = outcome s' \<and> now div 1000 = now' div 1000"
    if "?R s now" "?R s' now'"
  proof -
    from that have r: "0 \<le> userConfidence s" "userConfidence s < 2 ^ 256"
        "0 \<le> now div 1000" "now div 1000 < 2 ^ 256"
        "0 \<le> userConfidence s'" "userConfidence s' < 2 ^ 256"
        "0 \<le> now' div 1000" "now' div 1000 < 2 ^ 256"
      by simp_all
    have "encodePacked (commitmentInputs s now) = encodePacked (commitmentInputs s' now') \<longleftrightarrow>
        commitmentAddress s = commitmentAddress s' \<and> userDirection s = userDirection s'
         \<and> userConfidence s = userConfidence s' \<and> outcome s = outcome s'
         \<and> now div 1000 = now' div 1000"
      using r packed_inj [OF r]
      by (simp add: encodePacked_commitmentInputs)
    then show ?thesis
      by (simp only: commitmentAddress_def)
  qed
  have same: "computeCommitment K s now = computeCommitment K s' now' \<longleftrightarrow> K p = K p'"
    if "encodePacked (commitmentInputs s now) = Inr p"
      "encodePacked (commitmentInputs s' now') = Inr p'" for p p'
    using hashed [OF that(1)] hashed [OF that(2)] by (simp add: toHex256_inj)
  from computeCommitment_isHex32 fails fallback packed hashed inj same show ?thesis
    by blast
qed

theorem computeCommitment_digest_witness:
  "encodePacked (commitmentInputs revealedState 1700000000123) =
     Inr [0x30, 0x78, 0x44, 0x65, 0x6D, 0x6F, 0x55, 0x73, 0x65, 0x72,
          0x55, 0x50,
          0, 0, 0, 0, 0, 0, 0, 0, 0, 0, 0, 0, 0, 0, 0, 0,
          0, 0, 0, 0, 0, 0, 0, 0, 0, 0, 0, 0, 0, 0, 0, 0x4E,
          0x55, 0x50,
          0, 0, 0, 0, 0, 0, 0, 0, 0, 0, 0, 0, 0, 0, 0, 0,
          0, 0, 0, 0, 0, 0, 0, 0, 0, 0, 0, 0, 0, 0, 0, 0x41,
          0x55, 0x50,
          0, 0, 0, 0, 0, 0, 0, 0, 0, 0, 0, 0, 0, 0, 0, 0,
          0, 0, 0, 0, 0, 0, 0, 0, 0, 0, 0, 0, 0x65, 0x53, 0xF1, 0x00]
   \<and> computeCommitment sampleHash revealedState 1700000000123
     = ''0x0867ff2d5b5479eb83c0aac62aa756d7ae1b43149056b697a39b4c0bf542ddf3''
   \<and> isHex32 ''0x0867ff2d5b5479eb83c0aac62aa756d7ae1b43149056b697a39b4c0bf542ddf3''
   \<and> computeCommitment sampleHash (revealedState\<lparr>userConfidence := - 1\<rparr>) 1700000000123
     = ''0x0000000000000000000000000000000000000000000000000000000000000000''
   \<and> encodePacked (commitmentInputs revealedState 1700000000123)
     \<noteq> encodePacked (commitmentInputs (revealedState\<lparr>userDirection := Some DOWN\<rparr>) 1700000000123)
   \<and> encodePacked (commitmentInputs revealedState 1700000000123)
     \<noteq> encodePacked (commitmentInputs (revealedState\<lparr>demoMode := False\<rparr>) 1700000000123)
   \<and> encodePacked (commitmentInputs revealedState 1700000000123)
     \<noteq> encodePacked (commitmentInputs (revealedState\<lparr>outcome := DOWN\<rparr>) 1700000000123)
   \<and> computeCommitment sampleHash revealedState 1700000000123
     \<noteq> computeCommitment sampleHash (revealedState\<lparr>outcome := DOWN\<rparr>) 1700000005000"
proof -
  let ?t = "1700000000123 :: int"
  have inrange: "0 \<le> userConfidence (revealedState\<lparr>userDirection := d, demoMode := m, outcome := out\<rparr>)
      \<and> userConfidence (revealedState\<lparr>userDirection := d, demoMode := m, outcome := out\<rparr>) < 2 ^ 256
      \<and> 0 \<le> ?t div 1000 \<and> ?t div 1000 < 2 ^ 256" for d m out
    by (simp add: revealedState_def initialState_def)
  have plain: "revealedState = revealedState\<lparr>userDirection := Some UP, demoMode := True, outcome := UP\<rparr>"
    by (simp add: revealedState_def initialState_def)
  note inst = computeCommitment_digest [of sampleHash revealedState ?t]
  have bytes: "stringToBytes ''0xDemoUser'' @ stringToBytes ''UP'' @ uint256ToBytes 78
      @ stringToBytes ''UP'' @ uint256ToBytes 65 @ stringToBytes ''UP''
      @ uint256ToBytes (1700000000123 div 1000)
     = [0x30, 0x78, 0x44, 0x65, 0x6D, 0x6F, 0x55, 0x73, 0x65, 0x72,
          0x55, 0x50,
          0, 0, 0, 0, 0, 0, 0, 0, 0, 0, 0, 0, 0, 0, 0, 0,
          0, 0, 0, 0, 0, 0, 0, 0, 0, 0, 0, 0, 0, 0, 0, 0x4E,
          0x55, 0x50,
          0, 0, 0, 0, 0, 0, 0, 0, 0, 0, 0, 0, 0, 0, 0, 0,
          0, 0, 0, 0, 0, 0, 0, 0, 0, 0, 0, 0, 0, 0, 0, 0x41,
          0x55, 0x50,
          0, 0, 0, 0, 0, 0, 0, 0, 0, 0, 0, 0, 0, 0, 0, 0,
          0, 0, 0, 0, 0, 0, 0, 0, 0, 0, 0, 0, 0x65, 0x53, 0xF1, 0x00]"
    by code_simp
  have packed: "encodePacked (commitmentInputs revealedState ?t) =
     Inr [0x30, 0x78, 0x44, 0x65, 0x6D, 0x6F, 0x55, 0x73, 0x65, 0x72,
          0x55, 0x50,
          0, 0, 0, 0, 0, 0, 0, 0, 0, 0, 0, 0, 0, 0, 0, 0,
          0, 0, 0, 0, 0, 0, 0, 0, 0, 0, 0, 0, 0, 0, 0, 0x4E,
          0x55, 0x50,
          0, 0, 0, 0, 0, 0, 0, 0, 0, 0, 0, 0, 0, 0, 0, 0,
          0, 0, 0, 0, 0, 0, 0, 0, 0, 0, 0, 0, 0, 0, 0, 0x41,
          0x55, 0x50,
          0, 0, 0, 0, 0, 0, 0, 0, 0, 0, 0, 0, 0, 0, 0, 0,
          0, 0, 0, 0, 0, 0, 0, 0, 0, 0, 0, 0, 0x65, 0x53, 0xF1, 0x00]"
    using inst [THEN conjunct2, THEN conjunct2, THEN conjunct2, THEN conjunct1]
      inrange [where d = "Some UP" and m = True and out = UP] bytes
    by (simp add: plain [symmetric]) (simp add: revealedState_def initialState_def)
  have shape: "isHex32 ''0x0867ff2d5b5479eb83c0aac62aa756d7ae1b43149056b697a39b4c0bf542ddf3''"
    using inst [THEN conjunct1] by (simp only: sample_digest_first)
  have zeros: "''0x'' @ replicate 64 (CHR ''0'')
      = ''0x0000000000000000000000000000000000000000000000000000000000000000''"
    by code_simp
  have negative: "userConfidence (revealedState\<lparr>userConfidence := - 1\<rparr>) < 0"
    by simp
  have failing: "computeCommitment sampleHash (revealedState\<lparr>userConfidence := - 1\<rparr>) ?t
     = ''0x0000000000000000000000000000000000000000000000000000000000000000''"
    using computeCommitment_digest [of sampleHash "revealedState\<lparr>userConfidence := - 1\<rparr>" ?t]
      negative
    by (simp only: zeros) blast
  have differ: "encodePacked (commitmentInputs revealedState ?t)
     \<noteq> encodePacked (commitmentInputs s' ?t)"
    if "s' = revealedState\<lparr>userDirection := d, demoMode := m, outcome := out\<rparr>"
      and "d \<noteq> Some UP \<or> \<not> m \<or> out \<noteq> UP" for s' d m out
  proof -
    have "0 \<le> userConfidence revealedState \<and> userConfidence revealedState < 2 ^ 256
        \<and> 0 \<le> ?t div 1000 \<and> ?t div 1000 < 2 ^ 256
        \<and> 0 \<le> userConfidence s' \<and> userConfidence s' < 2 ^ 256
        \<and> 0 \<le> ?t div 1000 \<and> ?t div 1000 < 2 ^ 256"
      using inrange [where d = "Some UP" and m = True and out = UP] inrange [where d = d and m = m and out = out] that(1)
      by (simp add: plain [symmetric])
    with computeCommitment_digest [of sampleHash revealedState ?t s' ?t,
        THEN conjunct2, THEN conjunct2, THEN conjunct2, THEN conjunct2, THEN conjunct2, THEN conjunct1]
    have "encodePacked (commitmentInputs revealedState ?t) = encodePacked (commitmentInputs s' ?t) \<longleftrightarrow>
          (if demoMode revealedState then ''0xDemoUser''
           else if walletAddress revealedState = [] then ''0x0'' else walletAddress revealedState)
            = (if demoMode s' then ''0xDemoUser''
               else if walletAddress s' = [] then ''0x0'' else walletAddress s')
          \<and> userDirection revealedState = userDirection s'
          \<and> userConfidence revealedState = userConfidence s'
          \<and> outcome revealedState = outcome s' \<and> ?t div 1000 = ?t div 1000"
      by blast
    with that show ?thesis
      by (auto simp add: revealedState_def initialState_def)
  qed
  have d1: "encodePacked (commitmentInputs revealedState ?t)
     \<noteq> encodePacked (commitmentInputs (revealedState\<lparr>userDirection := Some DOWN\<rparr>) ?t)"
    by (rule differ [where d = "Some DOWN" and m = True and out = UP]) (simp_all add: revealedState_def initialState_def)
  have d2: "encodePacked (commitmentInputs revealedState ?t)
     \<noteq> encodePacked (commitmentInputs (revealedState\<lparr>demoMode := False\<rparr>) ?t)"
    by (rule differ [where d = "Some UP" and m = False and out = UP]) (simp_all add: revealedState_def initialState_def)
  have d3: "encodePacked (commitmentInputs revealedState ?t)
     \<noteq> encodePacked (commitmentInputs (revealedState\<lparr>outcome := DOWN\<rparr>) ?t)"
    by (rule differ [where d = "Some UP" and m = True and out = DOWN]) (simp_all add: revealedState_def initialState_def)
  have toggled: "handleRandomizeOutcome revealedState = revealedState\<lparr>outcome := DOWN\<rparr>"
    by (simp add: handleRandomizeOutcome_def revealedState_def initialState_def)
  have d4: "computeCommitment sampleHash revealedState ?t
     \<noteq> computeCommitment sampleHash (revealedState\<lparr>outcome := DOWN\<rparr>) 1700000005000"
    using sample_digest_first sample_digest_toggled by (simp add: toggled)
  from packed sample_digest_first shape failing d1 d2 d3 d4 show ?thesis
    by blast
qed

subsection \<open>Outcome toggle\<close>




end
